theory Spec2Isabelle
  imports Main "HOL-Library.Sublist"
begin

section \<open>Strings as the program uses them\<close>

text \<open>
  The program is \<^verbatim>\<open>app.py\<close>. Its strings are modelled as \<^typ>\<open>string\<close>. Three string
  operations of Python occur in the code under study: the substring test \<^verbatim>\<open>sub in s\<close>,
  \<^verbatim>\<open>str.lower\<close> and the decimal rendering of an integer inside an f-string.

  \<open>str_contains s sub\<close> is \<^verbatim>\<open>sub in s\<close>: it scans \<open>s\<close> from the left and tests, at every
  start position, whether \<open>sub\<close> begins there.
\<close>

fun str_contains :: "string \<Rightarrow> string \<Rightarrow> bool" where
  "str_contains [] sub = (sub = [])"
| "str_contains (c # cs) sub = (prefix sub (c # cs) \<or> str_contains cs sub)"



text \<open>\<open>str_nat i\<close> is what \<^verbatim>\<open>f"{i}"\<close> yields for a non-negative integer.\<close>

fun str_nat :: "nat \<Rightarrow> string" where
  "str_nat n =
     (if n < 10 then [''0123456789'' ! n]
      else str_nat (n div 10) @ [''0123456789'' ! (n mod 10)])"

declare str_nat.simps [simp del]


section \<open>Levels and the level map\<close>


text \<open>
  Lines 42 and 43: the dictionary \<^verbatim>\<open>level_map\<close> is the union of \<^verbatim>\<open>{"Foundation": "Foundation"}\<close>
  and a comprehension over \<^verbatim>\<open>range(1, 11)\<close> whose values are \<^verbatim>\<open>f"Level {i}"\<close>. In the copy of
  \<^verbatim>\<open>app.py\<close> at hand the key expression of the comprehension is damaged (the line reads
  \<^verbatim>\<open>{f"YearElena: "Level {i}" for i in range(1, 11)}\<close>); it is read as \<^verbatim>\<open>f"Year {i}"\<close>, the
  labels that line 31 builds, that line 43 looks up, and that key the table of examples on
  lines 250 to 260. The entries are kept as a list, in the order of the dictionary.
\<close>

definition level_map_items :: "(string \<times> string) list" where
  "level_map_items =
     [(''Foundation'', ''Foundation'')] @
     map (\<lambda>i. (''Year '' @ str_nat i, ''Level '' @ str_nat i)) [1..<11]"

definition level_map :: "string \<rightharpoonup> string" where
  "level_map = map_of level_map_items"



section \<open>The corpus store\<close>

text \<open>
  A chunk of \<^verbatim>\<open>curriculum_metadata.json\<close> is a dictionary with the keys \<^verbatim>\<open>id\<close>, \<^verbatim>\<open>text\<close> and
  \<^verbatim>\<open>metadata\<close>, the latter with the keys \<^verbatim>\<open>learning_area\<close> and \<^verbatim>\<open>level\<close>. The fields
  \<open>id_chunk\<close> and \<open>text_chunk\<close> are the keys \<^verbatim>\<open>id\<close> and \<^verbatim>\<open>text\<close>.
\<close>

record metadata =
  learning_area :: string
  level :: string

record chunk =
  id_chunk :: string
  text_chunk :: string
  metadata :: metadata

text \<open>An entry of the result list: \<^verbatim>\<open>{"chunk_id": chunk["id"], "text": chunk["text"]}\<close>.\<close>

record excerpt =
  chunk_id :: string
  text_excerpt :: string

text \<open>Lines 47 and 48: the condition of the comprehension that builds \<^verbatim>\<open>filtered_chunks\<close>.\<close>

definition chunk_matches :: "string \<Rightarrow> string \<Rightarrow> chunk \<Rightarrow> bool" where
  "chunk_matches selected_area selected_level_internal chunk \<longleftrightarrow>
     learning_area (metadata chunk) = selected_area \<and>
     (str_contains (level (metadata chunk)) selected_level_internal \<or>
      level (metadata chunk) = ''Unknown'')"

text \<open>Lines 45 to 49: the pairs of a position in the store and the chunk there.\<close>

definition filtered_chunks :: "chunk list \<Rightarrow> string \<Rightarrow> string \<Rightarrow> (nat \<times> chunk) list" where
  "filtered_chunks metadata_store selected_area selected_level_internal =
     filter (\<lambda>(i, chunk). chunk_matches selected_area selected_level_internal chunk)
       (enumerate 0 metadata_store)"


section \<open>The services outside the program\<close>

text \<open>
  \<^verbatim>\<open>query_graph_rag\<close> calls three things that are not code of the program: the constructor
  \<^verbatim>\<open>SentenceTransformer('all-MiniLM-L6-v2')\<close>, the method \<^verbatim>\<open>model.encode\<close> and the method
  \<^verbatim>\<open>index.search\<close> of the index read from \<^verbatim>\<open>curriculum_index.faiss\<close>. Each of them either
  returns or raises an exception, which the program renders into a message with \<^verbatim>\<open>{e}\<close>.
  They are parameters of the model: \<open>Inl e\<close> is an exception with rendering \<open>e\<close>, \<open>Inr\<close>
  a returned value. \<open>'m\<close> is the type of the loaded model, \<open>'v\<close> of an embedding, \<open>'d\<close>
  of a distance. \<open>index_search\<close> returns the first rows \<^verbatim>\<open>distances[0]\<close> and \<^verbatim>\<open>indices[0]\<close>;
  the entries of \<^verbatim>\<open>indices[0]\<close> are signed integers.
\<close>

type_synonym exn = string

record ('m, 'v, 'd) services =
  load_model :: "exn + 'm"
  encode :: "'m \<Rightarrow> string \<Rightarrow> exn + 'v"
  index_search :: "'v \<Rightarrow> int \<Rightarrow> exn + ('d list \<times> int list)"

text \<open>
  What a run does that can be observed besides its result: the calls it makes to the services,
  in order, and the messages it shows with \<^verbatim>\<open>st.error\<close>.
\<close>

datatype event = LoadModel | Encode string | Search int | StError string

text \<open>The exceptions the program's own code raises and does not catch.\<close>

datatype py_error = KeyError string | IndexError

record outcome =
  returned :: "py_error + excerpt list"
  trace :: "event list"


section \<open>The hybrid retrieval function\<close>

text \<open>
  Line 57: the comprehension \<^verbatim>\<open>[model.encode(text).astype('float32') for text in filtered_texts]\<close>
  encodes the texts from left to right and stops at the first exception.
\<close>

fun encode_texts ::
  "('m, 'v, 'd) services \<Rightarrow> 'm \<Rightarrow> string list \<Rightarrow> event list \<times> (exn + 'v list)" where
  "encode_texts svc model [] = ([], Inr [])"
| "encode_texts svc model (t # ts) =
     (case encode svc model t of
        Inl e \<Rightarrow> ([Encode t], Inl e)
      | Inr v \<Rightarrow>
          (case encode_texts svc model ts of
             (evs, Inl e) \<Rightarrow> (Encode t # evs, Inl e)
           | (evs, Inr vs) \<Rightarrow> (Encode t # evs, Inr (v # vs))))"

text \<open>
  Lines 57 to 59, the body of the second \<^verbatim>\<open>try\<close>: the embeddings of the filtered texts, the
  embedding of the query, the search. The value \<open>filtered_embeddings\<close> is bound and not used
  again, as in the source.
\<close>

definition embed_and_search ::
  "('m, 'v, 'd) services \<Rightarrow> 'm \<Rightarrow> string list \<Rightarrow> string \<Rightarrow> int \<Rightarrow>
     event list \<times> (exn + ('d list \<times> int list))" where
  "embed_and_search svc model filtered_texts query top_k =
     (case encode_texts svc model filtered_texts of
        (evs, Inl e) \<Rightarrow> (evs, Inl e)
      | (evs, Inr filtered_embeddings) \<Rightarrow>
          (case encode svc model query of
             Inl e \<Rightarrow> (evs @ [Encode query], Inl e)
           | Inr query_embedding \<Rightarrow>
               (case index_search svc query_embedding top_k of
                  Inl e \<Rightarrow> (evs @ [Encode query, Search top_k], Inl e)
                | Inr (distances, indices) \<Rightarrow>
                    (evs @ [Encode query, Search top_k], Inr (distances, indices)))))"

text \<open>
  \<^verbatim>\<open>xs[idx]\<close> on a Python list: a negative index counts from the end, and an index outside
  \<open>-len(xs) \<le> idx < len(xs)\<close> raises \<^verbatim>\<open>IndexError\<close>.
\<close>

definition py_getitem :: "'a list \<Rightarrow> int \<Rightarrow> py_error + 'a" where
  "py_getitem xs idx =
     (let n = int (length xs); j = (if idx < 0 then n + idx else idx)
      in if 0 \<le> j \<and> j < n then Inr (xs ! nat j) else Inl IndexError)"

text \<open>
  Lines 64 to 73: the loop over \<^verbatim>\<open>indices[0]\<close>, with \<open>results\<close> the list built so far. The
  test on line 66 is \<^verbatim>\<open>idx < len(filtered_chunks)\<close> and nothing else.
\<close>

fun collect_results ::
  "(nat \<times> chunk) list \<Rightarrow> int list \<Rightarrow> excerpt list \<Rightarrow> py_error + excerpt list" where
  "collect_results filtered [] results = Inr results"
| "collect_results filtered (idx # rest) results =
     (if idx < int (length filtered) then
        (case py_getitem filtered idx of
           Inl err \<Rightarrow> Inl err
         | Inr (chunk_idx, chunk) \<Rightarrow>
             collect_results filtered rest
               (results @ [\<lparr>chunk_id = id_chunk chunk, text_excerpt = text_chunk chunk\<rparr>]))
      else collect_results filtered rest results)"

text \<open>
  Lines 34 to 73. The globals \<^verbatim>\<open>index\<close> and \<^verbatim>\<open>metadata_store\<close> are arguments here: the index
  is the field \<open>index_search\<close> of the services. A missing key in \<^verbatim>\<open>level_map[selected_level]\<close>
  raises \<^verbatim>\<open>KeyError\<close>, outside both \<^verbatim>\<open>try\<close> blocks.
\<close>

definition query_graph_rag ::
  "('m, 'v, 'd) services \<Rightarrow> chunk list \<Rightarrow> string \<Rightarrow> string \<Rightarrow> string \<Rightarrow> int \<Rightarrow> outcome" where
  "query_graph_rag svc metadata_store query selected_area selected_level top_k =
     (case load_model svc of
        Inl e \<Rightarrow>
          \<lparr>returned = Inr [],
           trace = [LoadModel,
                    StError (''Oops! Something went wrong with the learning tool: '' @ e)]\<rparr>
      | Inr model \<Rightarrow>
          (case level_map selected_level of
             None \<Rightarrow> \<lparr>returned = Inl (KeyError selected_level), trace = [LoadModel]\<rparr>
           | Some selected_level_internal \<Rightarrow>
               (let filtered =
                      filtered_chunks metadata_store selected_area selected_level_internal
                in if filtered = [] then \<lparr>returned = Inr [], trace = [LoadModel]\<rparr>
                   else
                     (let filtered_texts = map (\<lambda>(_, chunk). text_chunk chunk) filtered
                      in case embed_and_search svc model filtered_texts query top_k of
                           (evs, Inl e) \<Rightarrow>
                             \<lparr>returned = Inr [],
                              trace = LoadModel # evs @
                                [StError (''Uh-oh! Trouble with the magic words: '' @ e)]\<rparr>
                         | (evs, Inr (distances, indices)) \<Rightarrow>
                             \<lparr>returned = collect_results filtered indices [],
                              trace = LoadModel # evs\<rparr>))))"


section \<open>The relevance test\<close>




section \<open>Notions used to state the properties\<close>

text \<open>
  \<open>excerpt_at filtered idx\<close> is the entry that lines 67 to 71 append for a position \<open>idx\<close>
  that \<^verbatim>\<open>filtered_chunks[idx]\<close> accepts.
\<close>

definition excerpt_at :: "(nat \<times> chunk) list \<Rightarrow> int \<Rightarrow> excerpt" where
  "excerpt_at filtered idx =
     (let chunk = snd (filtered ! nat (if idx < 0 then int (length filtered) + idx else idx))
      in \<lparr>chunk_id = id_chunk chunk, text_excerpt = text_chunk chunk\<rparr>)"

fun is_st_error :: "event \<Rightarrow> bool" where
  "is_st_error (StError msg) = True"
| "is_st_error ev = False"

text \<open>
  One of the calls inside the second \<^verbatim>\<open>try\<close> raises: the embedding of a filtered text, the
  embedding of the query, or the search with the embedding of the query.
\<close>

definition service_failure ::
  "('m, 'v, 'd) services \<Rightarrow> 'm \<Rightarrow> string list \<Rightarrow> string \<Rightarrow> int \<Rightarrow> bool" where
  "service_failure svc model texts query top_k \<longleftrightarrow>
     list_ex (\<lambda>t. isl (encode svc model t)) texts \<or>
     (case encode svc model query of
        Inl e \<Rightarrow> True
      | Inr query_embedding \<Rightarrow> isl (index_search svc query_embedding top_k))"

text \<open>
  The calls to the services that a run makes when nothing raises, in order: the constructor
  of the model, the embedding of every filtered text, the embedding of the query, the search.
\<close>

definition planned_calls :: "chunk list \<Rightarrow> string \<Rightarrow> string \<Rightarrow> string \<Rightarrow> int \<Rightarrow> event list" where
  "planned_calls metadata_store query selected_area selected_level top_k =
     LoadModel #
     (case level_map selected_level of
        None \<Rightarrow> []
      | Some selected_level_internal \<Rightarrow>
          map (\<lambda>(_, chunk). Encode (text_chunk chunk))
            (filtered_chunks metadata_store selected_area selected_level_internal) @
          [Encode query, Search top_k])"

text \<open>
  The variant of \<open>query_graph_rag\<close> without line 57: nothing but the query is embedded, which
  is \<open>embed_and_search\<close> on no texts. Everything else is as in \<open>query_graph_rag\<close>.
\<close>

definition query_graph_rag_without_subset_embeddings ::
  "('m, 'v, 'd) services \<Rightarrow> chunk list \<Rightarrow> string \<Rightarrow> string \<Rightarrow> string \<Rightarrow> int \<Rightarrow> outcome" where
  "query_graph_rag_without_subset_embeddings svc metadata_store query selected_area
      selected_level top_k =
     (case load_model svc of
        Inl e \<Rightarrow>
          \<lparr>returned = Inr [],
           trace = [LoadModel,
                    StError (''Oops! Something went wrong with the learning tool: '' @ e)]\<rparr>
      | Inr model \<Rightarrow>
          (case level_map selected_level of
             None \<Rightarrow> \<lparr>returned = Inl (KeyError selected_level), trace = [LoadModel]\<rparr>
           | Some selected_level_internal \<Rightarrow>
               (let filtered =
                      filtered_chunks metadata_store selected_area selected_level_internal
                in if filtered = [] then \<lparr>returned = Inr [], trace = [LoadModel]\<rparr>
                   else
                     (case embed_and_search svc model [] query top_k of
                        (evs, Inl e) \<Rightarrow>
                          \<lparr>returned = Inr [],
                           trace = LoadModel # evs @
                             [StError (''Uh-oh! Trouble with the magic words: '' @ e)]\<rparr>
                      | (evs, Inr (distances, indices)) \<Rightarrow>
                          \<lparr>returned = collect_results filtered indices [],
                           trace = LoadModel # evs\<rparr>))))"


section \<open>Concrete corpora and services\<close>

text \<open>The corpus of two chunks: one of Science, one of Mathematics, both of Level 2.\<close>

definition plants_chunk :: chunk where
  "plants_chunk =
     \<lparr>id_chunk = ''sci-1'', text_chunk = ''Plants need water'',
      metadata = \<lparr>learning_area = ''Science'', level = ''Level 2''\<rparr>\<rparr>"

definition addition_chunk :: chunk where
  "addition_chunk =
     \<lparr>id_chunk = ''math-1'', text_chunk = ''Addition basics'',
      metadata = \<lparr>learning_area = ''Mathematics'', level = ''Level 2''\<rparr>\<rparr>"

definition two_chunk_store :: "chunk list" where
  "two_chunk_store = [plants_chunk, addition_chunk]"

text \<open>A Science corpus whose chunks carry the tags of Level 1, Level 10 and Level 1 again.\<close>

definition light_chunk :: chunk where
  "light_chunk =
     \<lparr>id_chunk = ''sci-a'', text_chunk = ''Light and shadows'',
      metadata = \<lparr>learning_area = ''Science'', level = ''Level 1''\<rparr>\<rparr>"

definition genes_chunk :: chunk where
  "genes_chunk =
     \<lparr>id_chunk = ''sci-b'', text_chunk = ''Genes and inheritance'',
      metadata = \<lparr>learning_area = ''Science'', level = ''Level 10''\<rparr>\<rparr>"

definition weather_chunk :: chunk where
  "weather_chunk =
     \<lparr>id_chunk = ''sci-c'', text_chunk = ''Daily weather'',
      metadata = \<lparr>learning_area = ''Science'', level = ''Level 1''\<rparr>\<rparr>"

definition science_store :: "chunk list" where
  "science_store = [light_chunk, genes_chunk, weather_chunk]"

text \<open>
  Services for the concrete runs. The model is \<open>()\<close>, the embedding of a text is the text, a
  distance is a natural number.

  \<open>padding_services\<close>: an index that holds two vectors and is asked for three neighbours
  answers with both positions and fills the third slot with the label \<open>-1\<close>.
\<close>

definition padding_services :: "(unit, string, nat) services" where
  "padding_services =
     \<lparr>load_model = Inr (), encode = (\<lambda>model t. Inr t),
      index_search = (\<lambda>v k. Inr ([1, 4, 9], [0, 1, - 1]))\<rparr>"

text \<open>\<open>ranking_services\<close>: an index over six vectors that answers with positions 2, 0 and 5.\<close>

definition ranking_services :: "(unit, string, nat) services" where
  "ranking_services =
     \<lparr>load_model = Inr (), encode = (\<lambda>model t. Inr t),
      index_search = (\<lambda>v k. Inr ([1, 4, 9], [2, 0, 5]))\<rparr>"

text \<open>\<open>failing_index_services\<close>: the search raises.\<close>

definition failing_index_services :: "(unit, string, nat) services" where
  "failing_index_services =
     \<lparr>load_model = Inr (), encode = (\<lambda>model t. Inr t),
      index_search = (\<lambda>v k. Inl ''index unavailable'')\<rparr>"

text \<open>\<open>unavailable_model_services\<close>: the constructor of the model raises.\<close>

definition unavailable_model_services :: "(unit, string, nat) services" where
  "unavailable_model_services =
     \<lparr>load_model = Inl ''model not found'', encode = (\<lambda>model t. Inr t),
      index_search = (\<lambda>v k. Inr ([1, 4, 9], [2, 0, 5]))\<rparr>"

text \<open>
  \<open>picky_encoder_services\<close>: the embedding function raises on the text of \<open>plants_chunk\<close>
  and on no other text; the search answers with position 0.
\<close>

definition picky_encoder_services :: "(unit, string, nat) services" where
  "picky_encoder_services =
     \<lparr>load_model = Inr (),
      encode = (\<lambda>model t. if t = ''Plants need water'' then Inl ''cannot encode'' else Inr t),
      index_search = (\<lambda>v k. Inr ([1], [0]))\<rparr>"


section \<open>Facts about the string operations\<close>

lemma str_contains_iff: "str_contains s sub \<longleftrightarrow> (\<exists>ps ss. s = ps @ sub @ ss)"
proof (induction s)
  case Nil
  then show ?case by auto
next
  case (Cons c cs)
  show ?case
  proof
    assume "str_contains (c # cs) sub"
    then consider "prefix sub (c # cs)" | "str_contains cs sub" by auto
    then show "\<exists>ps ss. c # cs = ps @ sub @ ss"
    proof cases
      case 1
      then obtain ss where "c # cs = sub @ ss" by (auto simp: prefix_def)
      then have "c # cs = [] @ sub @ ss" by simp
      then show ?thesis by blast
    next
      case 2
      with Cons.IH obtain ps ss where "cs = ps @ sub @ ss" by blast
      then have "c # cs = (c # ps) @ sub @ ss" by simp
      then show ?thesis by blast
    qed
  next
    assume "\<exists>ps ss. c # cs = ps @ sub @ ss"
    then obtain ps ss where eq: "c # cs = ps @ sub @ ss" by blast
    show "str_contains (c # cs) sub"
    proof (cases ps)
      case Nil
      with eq have "prefix sub (c # cs)" by (simp add: prefix_def)
      then show ?thesis by simp
    next
      case (Cons p ps')
      with eq have "cs = ps' @ sub @ ss" by simp
      with Cons.IH have "str_contains cs sub" by blast
      then show ?thesis by simp
    qed
  qed
qed





section \<open>Facts about the level map\<close>

lemma level_map_items_eval:
  "level_map_items =
     [(''Foundation'', ''Foundation''), (''Year 1'', ''Level 1''), (''Year 2'', ''Level 2''),
      (''Year 3'', ''Level 3''), (''Year 4'', ''Level 4''), (''Year 5'', ''Level 5''),
      (''Year 6'', ''Level 6''), (''Year 7'', ''Level 7''), (''Year 8'', ''Level 8''),
      (''Year 9'', ''Level 9''), (''Year 10'', ''Level 10'')]"
  by code_simp











section \<open>Facts about the calls to the services\<close>

lemma encode_texts_trace: "prefix (fst (encode_texts svc model ts)) (map Encode ts)"
  by (induction ts) (auto split: sum.splits prod.splits)

lemma encode_texts_ok_trace:
  "encode_texts svc model ts = (evs, Inr vs) \<Longrightarrow> evs = map Encode ts"
  by (induction ts arbitrary: evs vs) (auto split: sum.splits prod.splits)

lemma encode_texts_fails_iff:
  "isl (snd (encode_texts svc model ts)) \<longleftrightarrow> list_ex (\<lambda>t. isl (encode svc model t)) ts"
  by (induction ts) (auto split: sum.splits prod.splits)

lemma embed_and_search_trace:
  "prefix (fst (embed_and_search svc model ts query top_k))
     (map Encode ts @ [Encode query, Search top_k])"
proof (cases "encode_texts svc model ts")
  case (Pair evs r)
  show ?thesis
  proof (cases r)
    case (Inl e)
    with Pair encode_texts_trace[of svc model ts] show ?thesis
      by (auto simp: embed_and_search_def intro: prefix_order.trans)
  next
    case (Inr vs)
    with Pair have "evs = map Encode ts" by (simp add: encode_texts_ok_trace)
    with Pair Inr show ?thesis
      by (auto simp: embed_and_search_def split: sum.splits)
  qed
qed

lemma embed_and_search_fails_iff:
  "isl (snd (embed_and_search svc model ts query top_k)) \<longleftrightarrow>
     service_failure svc model ts query top_k"
proof (cases "encode_texts svc model ts")
  case (Pair evs r)
  with encode_texts_fails_iff[of svc model ts] show ?thesis
    by (cases r) (auto simp: embed_and_search_def service_failure_def split: sum.splits)
qed


section \<open>Facts about the loop over the positions\<close>

lemma collect_results_eq:
  "collect_results filtered indices results =
     (if \<exists>idx\<in>set indices. idx < - int (length filtered) then Inl IndexError
      else Inr (results @
             map (excerpt_at filtered) (filter (\<lambda>idx. idx < int (length filtered)) indices)))"
proof (induction indices arbitrary: results)
  case Nil
  show ?case by simp
next
  case (Cons idx rest)
  show ?case
  proof (cases "idx < int (length filtered)")
    case False
    then have "\<not> idx < - int (length filtered)" by linarith
    with False Cons.IH show ?thesis by simp
  next
    case True
    show ?thesis
    proof (cases "idx < - int (length filtered)")
      case True
      then have "idx < int (length filtered)" by linarith
      with True show ?thesis by (simp add: py_getitem_def Let_def)
    next
      case low: False
      obtain chunk_idx chunk where
        "py_getitem filtered idx = Inr (chunk_idx, chunk)"
        "\<lparr>chunk_id = id_chunk chunk, text_excerpt = text_chunk chunk\<rparr> = excerpt_at filtered idx"
        using True low
        by (cases "filtered ! nat (if idx < 0 then int (length filtered) + idx else idx)")
           (auto simp: py_getitem_def excerpt_at_def Let_def)
      with True low Cons.IH show ?thesis by simp
    qed
  qed
qed

lemma length_filter_below:
  fixes indices :: "int list"
  assumes "distinct indices" and "\<forall>idx\<in>set indices. 0 \<le> idx"
  shows "length (filter (\<lambda>idx. idx < int n) indices) \<le> n"
proof -
  have "distinct (filter (\<lambda>idx. idx < int n) indices)" using assms(1) by simp
  then have "length (filter (\<lambda>idx. idx < int n) indices) =
             card (set (filter (\<lambda>idx. idx < int n) indices))"
    by (rule distinct_card[symmetric])
  also have "\<dots> \<le> card {0..<int n}"
    using assms(2) by (intro card_mono) auto
  finally show ?thesis by simp
qed

text \<open>
  When the positions are pairwise different and none is negative, the loop returns, and it
  returns no more entries than there are positions or filtered chunks.
\<close>

lemma collect_results_bound:
  assumes "distinct indices" and "\<forall>idx\<in>set indices. 0 \<le> idx"
  shows "\<exists>results. collect_results filtered indices [] = Inr results \<and>
           length results \<le> min (length indices) (length filtered)"
proof -
  have "\<not> (\<exists>idx\<in>set indices. idx < - int (length filtered))"
    using assms(2) by force
  then have "collect_results filtered indices [] =
      Inr (map (excerpt_at filtered) (filter (\<lambda>idx. idx < int (length filtered)) indices))"
    by (simp add: collect_results_eq)
  moreover have "length (filter (\<lambda>idx. idx < int (length filtered)) indices) \<le> length indices"
    by simp
  moreover note length_filter_below[OF assms, of "length filtered"]
  ultimately show ?thesis by simp
qed


lemma two_chunk_filter:
  "filtered_chunks two_chunk_store ''Science'' ''Level 2'' = [(0, plants_chunk)]"
  by (simp add: filtered_chunks_def two_chunk_store_def chunk_matches_def plants_chunk_def
      addition_chunk_def)


lemma science_filter:
  "filtered_chunks science_store ''Science'' ''Level 1'' =
     [(0, light_chunk), (1, genes_chunk), (2, weather_chunk)]"
  by (simp add: filtered_chunks_def science_store_def chunk_matches_def light_chunk_def
      genes_chunk_def weather_chunk_def)

lemma level_map_Year_1: "level_map ''Year 1'' = Some ''Level 1''"
  by (simp add: level_map_def level_map_items_eval)

lemma level_map_Year_2: "level_map ''Year 2'' = Some ''Level 2''"
  by (simp add: level_map_def level_map_items_eval)


section \<open>Facts about a run in which nothing raises\<close>

lemma planned_calls_no_st_error:
  "ev \<in> set (planned_calls metadata_store query selected_area selected_level top_k) \<Longrightarrow>
     \<not> is_st_error ev"
  by (auto simp: planned_calls_def split: option.splits)

lemma filter_st_error_Encode: "filter is_st_error (map Encode ts) = []"
  by (induction ts) simp_all

lemma encode_texts_all_ok:
  "\<not> list_ex (\<lambda>t. isl (encode svc model t)) ts \<Longrightarrow>
     \<exists>vs. encode_texts svc model ts = (map Encode ts, Inr vs)"
  by (induction ts) (auto split: sum.splits)

lemma embed_and_search_skip:
  assumes "\<not> list_ex (\<lambda>t. isl (encode svc model t)) ts"
  shows "embed_and_search svc model ts query top_k =
           (map Encode ts @ fst (embed_and_search svc model [] query top_k),
            snd (embed_and_search svc model [] query top_k))"
proof -
  from encode_texts_all_ok[OF assms] obtain vs
    where "encode_texts svc model ts = (map Encode ts, Inr vs)" by blast
  then show ?thesis
    by (simp add: embed_and_search_def split: sum.splits prod.splits)
qed

lemma embed_and_search_ok:
  assumes "\<not> list_ex (\<lambda>t. isl (encode svc model t)) ts"
      and "encode svc model query = Inr query_embedding"
      and "index_search svc query_embedding top_k = Inr (distances, indices)"
  shows "embed_and_search svc model ts query top_k =
           (map Encode ts @ [Encode query, Search top_k], Inr (distances, indices))"
proof -
  from encode_texts_all_ok[OF assms(1)] obtain vs
    where "encode_texts svc model ts = (map Encode ts, Inr vs)" by blast
  with assms(2,3) show ?thesis by (simp add: embed_and_search_def)
qed

lemma query_graph_rag_ok:
  assumes "load_model svc = Inr model"
      and "level_map selected_level = Some lvl"
      and "filtered_chunks metadata_store selected_area lvl \<noteq> []"
      and "\<forall>(i, chunk)\<in>set (filtered_chunks metadata_store selected_area lvl).
             \<not> isl (encode svc model (text_chunk chunk))"
      and "encode svc model query = Inr query_embedding"
      and "index_search svc query_embedding top_k = Inr (distances, indices)"
  shows "returned (query_graph_rag svc metadata_store query selected_area selected_level top_k) =
           collect_results (filtered_chunks metadata_store selected_area lvl) indices []"
proof -
  let ?texts = "map (\<lambda>(_, chunk). text_chunk chunk) (filtered_chunks metadata_store selected_area lvl)"
  from assms(4) have "\<not> list_ex (\<lambda>t. isl (encode svc model t)) ?texts"
    by (auto simp: list_ex_iff)
  from embed_and_search_ok[OF this assms(5,6)] assms(1,2,3) show ?thesis
    by (simp add: query_graph_rag_def Let_def)
qed

section \<open>The level map is a bijection\<close>




section \<open>What the metadata filter keeps\<close>

text \<open>
  C5. For every store, area and internal level tag, the pair of a position and a chunk is in
  the filtered list exactly when the chunk stands at that position of the store, its
  learning area is the requested area, and its level field either contains the tag as a
  substring or is \<^verbatim>\<open>"Unknown"\<close>.
\<close>

theorem filtered_chunks_iff:
  "(i, chunk) \<in> set (filtered_chunks metadata_store selected_area selected_level_internal) \<longleftrightarrow>
     i < length metadata_store \<and> metadata_store ! i = chunk \<and>
     learning_area (metadata chunk) = selected_area \<and>
     ((\<exists>ps ss. level (metadata chunk) = ps @ selected_level_internal @ ss) \<or>
      level (metadata chunk) = ''Unknown'')"
  by (auto simp: filtered_chunks_def chunk_matches_def in_set_enumerate_eq str_contains_iff)

theorem filtered_chunks_iff_witness:
  "level_map ''Year 2'' = Some ''Level 2'' \<and>
   (0, plants_chunk) \<in> set (filtered_chunks two_chunk_store ''Science'' ''Level 2'') \<and>
   (1, addition_chunk) \<notin> set (filtered_chunks two_chunk_store ''Science'' ''Level 2'')"
proof -
  have "level_map ''Year 2'' = Some ''Level 2''"
    by (simp add: level_map_def level_map_items_eval)
  moreover
  have "(0, plants_chunk) \<in> set (filtered_chunks two_chunk_store ''Science'' ''Level 2'')"
  proof -
    have "level (metadata plants_chunk) = [] @ ''Level 2'' @ []"
      by (simp add: plants_chunk_def)
    then have "\<exists>ps ss. level (metadata plants_chunk) = ps @ ''Level 2'' @ ss" by blast
    moreover have "0 < length two_chunk_store \<and> two_chunk_store ! 0 = plants_chunk \<and>
        learning_area (metadata plants_chunk) = ''Science''"
      by (simp add: two_chunk_store_def plants_chunk_def)
    ultimately show ?thesis
      using filtered_chunks_iff[of 0 plants_chunk two_chunk_store "''Science''" "''Level 2''"]
      by blast
  qed
  moreover
  have "(1, addition_chunk) \<notin> set (filtered_chunks two_chunk_store ''Science'' ''Level 2'')"
    using filtered_chunks_iff[of 1 addition_chunk two_chunk_store "''Science''" "''Level 2''"]
    by (simp add: two_chunk_store_def addition_chunk_def)
  ultimately show ?thesis by blast
qed

text \<open>
  C10. The label \<^verbatim>\<open>"Year 1"\<close> stands for the tag \<^verbatim>\<open>"Level 1"\<close>, and the filter for the tag
  \<^verbatim>\<open>"Level 1"\<close> keeps a chunk whose level field is \<^verbatim>\<open>"Level 10"\<close>: in a store with chunks of
  both tags it keeps all of them, and in a store that holds only the chunk of \<^verbatim>\<open>"Level 10"\<close>
  it keeps that chunk.
\<close>

theorem level_1_filter_admits_level_10:
  "level_map ''Year 1'' = Some ''Level 1'' \<and>
   level (metadata genes_chunk) = ''Level 10'' \<and>
   filtered_chunks science_store ''Science'' ''Level 1'' =
     [(0, light_chunk), (1, genes_chunk), (2, weather_chunk)] \<and>
   filtered_chunks [genes_chunk] ''Science'' ''Level 1'' = [(0, genes_chunk)]"
  by (simp add: level_map_def level_map_items_eval filtered_chunks_def science_store_def
      chunk_matches_def light_chunk_def genes_chunk_def weather_chunk_def)


section \<open>What the relevance test decides\<close>








section \<open>Retrieval with an empty filtered list\<close>

text \<open>
  C3. For every valid level label, whenever no chunk of the store passes the filter for the
  area and the tag of the label, \<open>query_graph_rag\<close> returns the empty list, and its trace has
  no call of the embedding function and no search.
\<close>

theorem empty_filter_no_search:
  assumes "level_map selected_level = Some selected_level_internal"
      and "filtered_chunks metadata_store selected_area selected_level_internal = []"
  shows "returned (query_graph_rag svc metadata_store query selected_area selected_level top_k) = Inr [] \<and>
         (\<forall>ev\<in>set (trace (query_graph_rag svc metadata_store query selected_area selected_level top_k)).
            (\<forall>t. ev \<noteq> Encode t) \<and> (\<forall>k. ev \<noteq> Search k))"
  using assms by (auto simp: query_graph_rag_def split: sum.splits)

theorem empty_filter_no_search_witness:
  "level_map ''Year 2'' = Some ''Level 2'' \<and>
   filtered_chunks two_chunk_store ''English'' ''Level 2'' = [] \<and>
   query_graph_rag padding_services two_chunk_store ''story'' ''English'' ''Year 2'' 3 =
     \<lparr>returned = Inr [], trace = [LoadModel]\<rparr>"
proof -
  have lvl: "level_map ''Year 2'' = Some ''Level 2''"
    by (simp add: level_map_def level_map_items_eval)
  have emp: "filtered_chunks two_chunk_store ''English'' ''Level 2'' = []"
    by (simp add: filtered_chunks_def two_chunk_store_def chunk_matches_def plants_chunk_def
        addition_chunk_def)
  have tr: "trace (query_graph_rag padding_services two_chunk_store ''story'' ''English'' ''Year 2'' 3) = [LoadModel]"
    by (simp add: query_graph_rag_def padding_services_def lvl emp)
  from empty_filter_no_search[OF lvl emp, of padding_services "''story''" 3]
  have "returned (query_graph_rag padding_services two_chunk_store ''story'' ''English'' ''Year 2'' 3) = Inr []"
    by blast
  with tr lvl emp show ?thesis by simp
qed


section \<open>Failures of the services\<close>

text \<open>
  C8. Whenever the constructor of the model raises, or the level is valid, the filtered list
  is not empty and one of the calls of the second \<^verbatim>\<open>try\<close> raises (the embedding of a filtered
  text, the embedding of the query, the search), \<open>query_graph_rag\<close> returns the empty list and
  raises nothing; its trace is a prefix of the planned calls, each made once and in order,
  followed by one message of \<^verbatim>\<open>st.error\<close>, and that is the only such message.
\<close>

theorem service_failures_are_caught:
  assumes "isl (load_model svc) \<or>
           (\<exists>model lvl. load_model svc = Inr model \<and> level_map selected_level = Some lvl \<and>
              filtered_chunks metadata_store selected_area lvl \<noteq> [] \<and>
              service_failure svc model
                (map (\<lambda>(_, chunk). text_chunk chunk) (filtered_chunks metadata_store selected_area lvl))
                query top_k)"
  shows "returned (query_graph_rag svc metadata_store query selected_area selected_level top_k) = Inr [] \<and>
         (\<exists>calls msg.
            trace (query_graph_rag svc metadata_store query selected_area selected_level top_k) =
              calls @ [StError msg] \<and>
            prefix calls (planned_calls metadata_store query selected_area selected_level top_k)) \<and>
         length (filter is_st_error
           (trace (query_graph_rag svc metadata_store query selected_area selected_level top_k))) = 1"
proof -
  let ?out = "query_graph_rag svc metadata_store query selected_area selected_level top_k"
  let ?planned = "planned_calls metadata_store query selected_area selected_level top_k"
  have main: "returned ?out = Inr [] \<and> (\<exists>calls msg. trace ?out = calls @ [StError msg] \<and> prefix calls ?planned)"
  proof (cases "load_model svc")
    case (Inl e)
    then have "returned ?out = Inr []"
      and "trace ?out = [LoadModel] @ [StError (''Oops! Something went wrong with the learning tool: '' @ e)]"
      by (simp_all add: query_graph_rag_def)
    moreover have "prefix [LoadModel] ?planned" by (simp add: planned_calls_def)
    ultimately show ?thesis by blast
  next
    case (Inr model)
    with assms obtain lvl where lvl: "level_map selected_level = Some lvl"
      and ne: "filtered_chunks metadata_store selected_area lvl \<noteq> []"
      and fail: "service_failure svc model
                (map (\<lambda>(_, chunk). text_chunk chunk) (filtered_chunks metadata_store selected_area lvl))
                query top_k"
      by auto
    let ?texts = "map (\<lambda>(_, chunk). text_chunk chunk) (filtered_chunks metadata_store selected_area lvl)"
    obtain evs r where es: "embed_and_search svc model ?texts query top_k = (evs, r)"
      by (cases "embed_and_search svc model ?texts query top_k")
    with fail embed_and_search_fails_iff[of svc model ?texts query top_k]
    obtain e where r: "r = Inl e" by (cases r) auto
    from embed_and_search_trace[of svc model ?texts query top_k] es
    have "prefix evs (map Encode ?texts @ [Encode query, Search top_k])" by simp
    then have pre: "prefix (LoadModel # evs) ?planned"
      by (simp add: planned_calls_def lvl comp_def case_prod_unfold)
    from Inr lvl ne es r have "returned ?out = Inr []"
      and "trace ?out = (LoadModel # evs) @ [StError (''Uh-oh! Trouble with the magic words: '' @ e)]"
      by (simp_all add: query_graph_rag_def)
    with pre show ?thesis by blast
  qed
  then obtain calls msg where tr: "trace ?out = calls @ [StError msg]" and pre: "prefix calls ?planned"
    by blast
  from pre have "set calls \<subseteq> set ?planned" by (rule set_mono_prefix)
  then have "filter is_st_error calls = []"
    by (auto simp: filter_empty_conv dest: planned_calls_no_st_error)
  with tr have "length (filter is_st_error (trace ?out)) = 1" by simp
  with main show ?thesis by blast
qed

theorem service_failures_are_caught_witness:
  "service_failure failing_index_services () [''Light and shadows'', ''Genes and inheritance'', ''Daily weather''] ''light'' 3 \<and>
   query_graph_rag failing_index_services science_store ''light'' ''Science'' ''Year 1'' 3 =
     \<lparr>returned = Inr [],
      trace = [LoadModel, Encode ''Light and shadows'', Encode ''Genes and inheritance'',
               Encode ''Daily weather'', Encode ''light'', Search 3,
               StError ''Uh-oh! Trouble with the magic words: index unavailable'']\<rparr> \<and>
   isl (load_model unavailable_model_services) \<and>
   query_graph_rag unavailable_model_services science_store ''light'' ''Science'' ''Year 1'' 3 =
     \<lparr>returned = Inr [],
      trace = [LoadModel,
               StError ''Oops! Something went wrong with the learning tool: model not found'']\<rparr>"
proof -
  have lvl: "level_map ''Year 1'' = Some ''Level 1''"
    by (simp add: level_map_def level_map_items_eval)
  have fc: "filtered_chunks science_store ''Science'' ''Level 1'' =
     [(0, light_chunk), (1, genes_chunk), (2, weather_chunk)]"
    by (simp add: filtered_chunks_def science_store_def
      chunk_matches_def light_chunk_def genes_chunk_def weather_chunk_def)
  have texts: "map (\<lambda>(_, chunk). text_chunk chunk) (filtered_chunks science_store ''Science'' ''Level 1'') =
      [''Light and shadows'', ''Genes and inheritance'', ''Daily weather'']"
    by (simp add: fc light_chunk_def genes_chunk_def weather_chunk_def)
  have fail: "service_failure failing_index_services ()
      [''Light and shadows'', ''Genes and inheritance'', ''Daily weather''] ''light'' 3"
    by (simp add: service_failure_def failing_index_services_def)
  have "load_model failing_index_services = Inr ()"
    by (simp add: failing_index_services_def)
  with lvl fc texts fail
  have hyp: "isl (load_model failing_index_services) \<or>
           (\<exists>model lvl. load_model failing_index_services = Inr model \<and> level_map ''Year 1'' = Some lvl \<and>
              filtered_chunks science_store ''Science'' lvl \<noteq> [] \<and>
              service_failure failing_index_services model
                (map (\<lambda>(_, chunk). text_chunk chunk) (filtered_chunks science_store ''Science'' lvl))
                ''light'' 3)"
    by auto
  have tr: "trace (query_graph_rag failing_index_services science_store ''light'' ''Science'' ''Year 1'' 3) =
      [LoadModel, Encode ''Light and shadows'', Encode ''Genes and inheritance'',
               Encode ''Daily weather'', Encode ''light'', Search 3,
               StError ''Uh-oh! Trouble with the magic words: index unavailable'']"
    by (simp add: query_graph_rag_def lvl fc embed_and_search_def failing_index_services_def
        light_chunk_def genes_chunk_def weather_chunk_def)
  from service_failures_are_caught[OF hyp]
  have ret: "returned (query_graph_rag failing_index_services science_store ''light''
      ''Science'' ''Year 1'' 3) = Inr []"
    by blast
  have down: "isl (load_model unavailable_model_services)"
    by (simp add: unavailable_model_services_def)
  then have hyp': "isl (load_model unavailable_model_services) \<or>
           (\<exists>model lvl. load_model unavailable_model_services = Inr model \<and>
              level_map ''Year 1'' = Some lvl \<and>
              filtered_chunks science_store ''Science'' lvl \<noteq> [] \<and>
              service_failure unavailable_model_services model
                (map (\<lambda>(_, chunk). text_chunk chunk)
                   (filtered_chunks science_store ''Science'' lvl))
                ''light'' 3)"
    by blast
  have tr': "trace (query_graph_rag unavailable_model_services science_store ''light''
      ''Science'' ''Year 1'' 3) =
      [LoadModel, StError ''Oops! Something went wrong with the learning tool: model not found'']"
    by (simp add: query_graph_rag_def unavailable_model_services_def)
  from service_failures_are_caught[OF hyp']
  have ret': "returned (query_graph_rag unavailable_model_services science_store ''light''
      ''Science'' ''Year 1'' 3) = Inr []"
    by blast
  from tr fail ret down tr' ret' show ?thesis by simp
qed


section \<open>The order and the number of the returned excerpts\<close>

text \<open>
  C4. In a run in which no service raises, on a filtered list that is not empty, with as many
  distances as positions and the distances in ascending order: the excerpts returned are
  those of the positions that pass the test of line 66, in the order in which the index
  returned them, so that the distances of the returned excerpts are in ascending order too.
  (A position below \<open>- len(filtered_chunks)\<close> makes line 67 raise \<^verbatim>\<open>IndexError\<close>, and nothing is
  returned.)
\<close>

theorem retrieve_keeps_index_order:
  fixes svc :: "('m, 'v, 'd::linorder) services"
  assumes "load_model svc = Inr model"
      and "level_map selected_level = Some lvl"
      and "filtered = filtered_chunks metadata_store selected_area lvl"
      and "filtered \<noteq> []"
      and "\<forall>(i, chunk)\<in>set filtered. \<not> isl (encode svc model (text_chunk chunk))"
      and "encode svc model query = Inr query_embedding"
      and "index_search svc query_embedding top_k = Inr (distances, indices)"
      and "length distances = length indices"
      and "sorted distances"
      and "emitted = filter (\<lambda>(idx, d). idx < int (length filtered)) (zip indices distances)"
  shows "returned (query_graph_rag svc metadata_store query selected_area selected_level top_k) =
           (if \<exists>idx\<in>set indices. idx < - int (length filtered) then Inl IndexError
            else Inr (map (\<lambda>(idx, d). excerpt_at filtered idx) emitted)) \<and>
         subseq emitted (zip indices distances) \<and>
         sorted (map snd emitted)"
proof -
  have fst_zip: "map fst (zip indices distances) = indices"
    using assms(8) by simp
  have "filter (\<lambda>idx. idx < int (length filtered)) (map fst (zip indices distances)) =
        map fst (filter ((\<lambda>idx. idx < int (length filtered)) \<circ> fst) (zip indices distances))"
    by (rule filter_map)
  also have "(\<lambda>idx. idx < int (length filtered)) \<circ> fst =
        (\<lambda>(idx, d :: 'd). idx < int (length filtered))"
    by (simp add: comp_def case_prod_unfold)
  finally have "filter (\<lambda>idx. idx < int (length filtered)) indices = map fst emitted"
    unfolding assms(10) fst_zip .
  then have "map (excerpt_at filtered) (filter (\<lambda>idx. idx < int (length filtered)) indices) =
        map (\<lambda>(idx, d). excerpt_at filtered idx) emitted"
    by (simp add: comp_def case_prod_unfold)
  moreover have "returned (query_graph_rag svc metadata_store query selected_area selected_level top_k) =
       collect_results filtered indices []"
    using query_graph_rag_ok[OF assms(1,2) _ _ assms(6,7)] assms(3,4,5) by simp
  ultimately have first: "returned (query_graph_rag svc metadata_store query selected_area selected_level top_k) =
           (if \<exists>idx\<in>set indices. idx < - int (length filtered) then Inl IndexError
            else Inr (map (\<lambda>(idx, d). excerpt_at filtered idx) emitted))"
    by (simp add: collect_results_eq)
  have second: "subseq emitted (zip indices distances)"
    unfolding assms(10) by simp
  have "map snd (zip indices distances) = distances"
    using assms(8) by simp
  with assms(9) have "sorted (map snd (zip indices distances))" by simp
  then have third: "sorted (map snd emitted)"
    unfolding assms(10) by (rule sorted_filter)
  from first second third show ?thesis by blast
qed

theorem retrieve_keeps_index_order_witness:
  "sorted [1, 4, 9 :: nat] \<and>
   index_search ranking_services ''light'' 3 = Inr ([1, 4, 9], [2, 0, 5]) \<and>
   returned (query_graph_rag ranking_services science_store ''light'' ''Science'' ''Year 1'' 3) =
     Inr [\<lparr>chunk_id = ''sci-c'', text_excerpt = ''Daily weather''\<rparr>,
          \<lparr>chunk_id = ''sci-a'', text_excerpt = ''Light and shadows''\<rparr>] \<and>
   sorted (map snd [(2 :: int, 1 :: nat), (0, 4)])"
proof -
  let ?filtered = "[(0 :: nat, light_chunk), (1, genes_chunk), (2, weather_chunk)]"
  have h1: "load_model ranking_services = Inr ()" by (simp add: ranking_services_def)
  have h3: "?filtered = filtered_chunks science_store ''Science'' ''Level 1''"
    by (simp add: science_filter)
  have h4: "?filtered \<noteq> []" by simp
  have h5: "\<forall>(i, chunk)\<in>set ?filtered. \<not> isl (encode ranking_services () (text_chunk chunk))"
    by (simp add: ranking_services_def)
  have h6: "encode ranking_services () ''light'' = Inr ''light''"
    by (simp add: ranking_services_def)
  have h7: "index_search ranking_services ''light'' 3 = Inr ([1, 4, 9], [2, 0, 5])"
    by (simp add: ranking_services_def)
  have h8: "length [1, 4, 9 :: nat] = length [2, 0, 5 :: int]" by simp
  have h9: "sorted [1, 4, 9 :: nat]" by simp
  have h10: "[(2 :: int, 1 :: nat), (0, 4)] =
      filter (\<lambda>(idx, d). idx < int (length ?filtered)) (zip [2, 0, 5] [1, 4, 9])"
    by simp
  from retrieve_keeps_index_order[OF h1 level_map_Year_1 h3 h4 h5 h6 h7 h8 h9 h10]
  have "returned (query_graph_rag ranking_services science_store ''light'' ''Science'' ''Year 1'' 3) =
     Inr [\<lparr>chunk_id = ''sci-c'', text_excerpt = ''Daily weather''\<rparr>,
          \<lparr>chunk_id = ''sci-a'', text_excerpt = ''Light and shadows''\<rparr>]"
    and "sorted (map snd [(2 :: int, 1 :: nat), (0, 4)])"
    by (simp_all add: excerpt_at_def light_chunk_def weather_chunk_def)
  with h7 h9 show ?thesis by blast
qed

text \<open>
  When the index returns at most \<open>top_k\<close> positions, pairwise different and none negative, the
  number of excerpts is at most \<open>top_k\<close> and at most the length of the filtered list.
\<close>

lemma query_graph_rag_bound:
  assumes "load_model svc = Inr model"
      and "level_map selected_level = Some lvl"
      and "filtered_chunks metadata_store selected_area lvl \<noteq> []"
      and "\<forall>(i, chunk)\<in>set (filtered_chunks metadata_store selected_area lvl).
             \<not> isl (encode svc model (text_chunk chunk))"
      and "encode svc model query = Inr query_embedding"
      and "index_search svc query_embedding top_k = Inr (distances, indices)"
      and "int (length indices) \<le> top_k"
      and "distinct indices" and "\<forall>idx\<in>set indices. 0 \<le> idx"
  shows "\<exists>results.
           returned (query_graph_rag svc metadata_store query selected_area selected_level top_k) =
             Inr results \<and>
           int (length results) \<le>
             min top_k (int (length (filtered_chunks metadata_store selected_area lvl)))"
proof -
  from collect_results_bound[OF assms(8,9), of "filtered_chunks metadata_store selected_area lvl"]
  obtain results where
    "collect_results (filtered_chunks metadata_store selected_area lvl) indices [] = Inr results"
    "length results \<le> min (length indices) (length (filtered_chunks metadata_store selected_area lvl))"
    by blast
  with query_graph_rag_ok[OF assms(1-6)] assms(7) show ?thesis by auto
qed

text \<open>
  C2. The bound does not hold for the positions of \<open>padding_services\<close>. The store has two
  chunks and \<open>top_k\<close> is 3; the filtered list for Science and Year 2 has one chunk. The index
  answers with the positions 0, 1 and \<open>-1\<close>. Position 1 is dropped by the test of line 66;
  position \<open>-1\<close> passes it, and \<^verbatim>\<open>filtered_chunks[-1]\<close> is the last filtered chunk. Two
  excerpts are returned, both of the one filtered chunk.
\<close>

theorem padded_search_repeats_last_chunk:
  "filtered_chunks two_chunk_store ''Science'' ''Level 2'' = [(0, plants_chunk)] \<and>
   index_search padding_services ''CPU'' 3 = Inr ([1, 4, 9], [0, 1, - 1]) \<and>
   returned (query_graph_rag padding_services two_chunk_store ''CPU'' ''Science'' ''Year 2'' 3) =
     Inr [\<lparr>chunk_id = ''sci-1'', text_excerpt = ''Plants need water''\<rparr>,
          \<lparr>chunk_id = ''sci-1'', text_excerpt = ''Plants need water''\<rparr>]"
  by (simp add: two_chunk_filter query_graph_rag_def level_map_Year_2 embed_and_search_def
      padding_services_def py_getitem_def plants_chunk_def)


section \<open>The embeddings of the filtered texts\<close>

text \<open>
  With \<open>picky_encoder_services\<close> the embedding of the text of the one filtered chunk raises:
  \<open>query_graph_rag\<close> returns the empty list, and the variant without line 57 returns the
  excerpt of that chunk.
\<close>

theorem failing_subset_embedding_changes_result:
  "returned (query_graph_rag picky_encoder_services two_chunk_store ''water'' ''Science''
      ''Year 2'' 1) = Inr [] \<and>
   returned (query_graph_rag_without_subset_embeddings picky_encoder_services two_chunk_store
      ''water'' ''Science'' ''Year 2'' 1) =
     Inr [\<lparr>chunk_id = ''sci-1'', text_excerpt = ''Plants need water''\<rparr>]"
  by (simp add: two_chunk_filter query_graph_rag_def query_graph_rag_without_subset_embeddings_def
      level_map_Year_2 embed_and_search_def picky_encoder_services_def py_getitem_def
      plants_chunk_def)

text \<open>
  C9, amended. Whenever the embedding function raises on the text of no filtered chunk,
  \<open>query_graph_rag\<close> and its variant without line 57 return the same result, and show the
  same messages with \<^verbatim>\<open>st.error\<close>, for every query, area, level and \<open>top_k\<close>.
\<close>

theorem subset_embeddings_unused:
  assumes "\<forall>model lvl. load_model svc = Inr model \<and> level_map selected_level = Some lvl \<longrightarrow>
             (\<forall>(i, chunk)\<in>set (filtered_chunks metadata_store selected_area lvl).
                \<not> isl (encode svc model (text_chunk chunk)))"
  shows "returned (query_graph_rag svc metadata_store query selected_area selected_level top_k) =
         returned (query_graph_rag_without_subset_embeddings svc metadata_store query
           selected_area selected_level top_k) \<and>
         filter is_st_error
           (trace (query_graph_rag svc metadata_store query selected_area selected_level top_k)) =
         filter is_st_error
           (trace (query_graph_rag_without_subset_embeddings svc metadata_store query
              selected_area selected_level top_k))"
proof (cases "load_model svc")
  case (Inl e)
  then show ?thesis
    by (simp add: query_graph_rag_def query_graph_rag_without_subset_embeddings_def)
next
  case (Inr model)
  show ?thesis
  proof (cases "level_map selected_level")
    case None
    with Inr show ?thesis
      by (simp add: query_graph_rag_def query_graph_rag_without_subset_embeddings_def)
  next
    case (Some lvl)
    let ?filtered = "filtered_chunks metadata_store selected_area lvl"
    let ?texts = "map (\<lambda>(_, chunk). text_chunk chunk) ?filtered"
    from assms Inr Some
    have "\<forall>(i, chunk)\<in>set ?filtered. \<not> isl (encode svc model (text_chunk chunk))" by blast
    then have "\<not> list_ex (\<lambda>t. isl (encode svc model t)) ?texts"
      by (auto simp: list_ex_iff)
    from embed_and_search_skip[OF this, of query top_k]
    obtain evs r where short: "embed_and_search svc model [] query top_k = (evs, r)"
      and long: "embed_and_search svc model ?texts query top_k = (map Encode ?texts @ evs, r)"
      by (cases "embed_and_search svc model [] query top_k") simp
    show ?thesis
    proof (cases "?filtered = []")
      case True
      with Inr Some show ?thesis
        by (simp add: query_graph_rag_def query_graph_rag_without_subset_embeddings_def)
    next
      case False
      with Inr Some short long show ?thesis
        by (cases r)
           (simp_all add: query_graph_rag_def query_graph_rag_without_subset_embeddings_def Let_def
              filter_st_error_Encode split: prod.splits)
    qed
  qed
qed

theorem subset_embeddings_unused_witness:
  "(\<forall>t. \<not> isl (encode ranking_services () t)) \<and>
   returned (query_graph_rag ranking_services science_store ''light'' ''Science'' ''Year 1'' 3) =
     Inr [\<lparr>chunk_id = ''sci-c'', text_excerpt = ''Daily weather''\<rparr>,
          \<lparr>chunk_id = ''sci-a'', text_excerpt = ''Light and shadows''\<rparr>] \<and>
   returned (query_graph_rag_without_subset_embeddings ranking_services science_store ''light''
      ''Science'' ''Year 1'' 3) =
     Inr [\<lparr>chunk_id = ''sci-c'', text_excerpt = ''Daily weather''\<rparr>,
          \<lparr>chunk_id = ''sci-a'', text_excerpt = ''Light and shadows''\<rparr>]"
proof -
  have enc: "\<forall>t. \<not> isl (encode ranking_services () t)"
    by (simp add: ranking_services_def)
  then have hyp: "\<forall>model lvl. load_model ranking_services = Inr model \<and>
        level_map ''Year 1'' = Some lvl \<longrightarrow>
        (\<forall>(i, chunk)\<in>set (filtered_chunks science_store ''Science'' lvl).
           \<not> isl (encode ranking_services model (text_chunk chunk)))"
    by auto
  have short: "returned (query_graph_rag_without_subset_embeddings ranking_services science_store
      ''light'' ''Science'' ''Year 1'' 3) =
     Inr [\<lparr>chunk_id = ''sci-c'', text_excerpt = ''Daily weather''\<rparr>,
          \<lparr>chunk_id = ''sci-a'', text_excerpt = ''Light and shadows''\<rparr>]"
    by (simp add: science_filter query_graph_rag_without_subset_embeddings_def level_map_Year_1
        embed_and_search_def ranking_services_def py_getitem_def light_chunk_def weather_chunk_def)
  from subset_embeddings_unused[OF hyp, of "''light''" 3] short enc show ?thesis by simp
qed

end
